theory Spec2Isabelle
  imports Complex_Main
begin

section \<open>Tensors and the numeric model\<close>

text \<open>
  The notebook \<^verbatim>\<open>src/notebooks/actor-critic.ipynb\<close> computes on TensorFlow tensors of
  dtype \<^verbatim>\<open>float32\<close> and \<^verbatim>\<open>int32\<close>. A rank-1 tensor is a list, a rank-2 tensor a list
  of rows. Values of dtype \<^verbatim>\<open>float32\<close> are idealised as \<^typ>\<open>real\<close> (no rounding, no
  overflow), values of dtype \<^verbatim>\<open>int32\<close> as \<^typ>\<open>int\<close>. The one exceptional value that the
  reductions of the notebook can produce on finite input, the NaN of a mean over zero
  elements (\<open>0 / 0\<close>), is kept: it is the result \<open>None\<close>.
\<close>

text \<open>The exceptions that the code of the notebook can raise.\<close>

datatype error = TypeError | StatisticsError

text \<open>A rank-1 tensor as \<^verbatim>\<open>get_expected_return\<close> may receive it, with its dtype.\<close>

datatype tensor = Int32 "int list" | Float32 "real list"

text \<open>\<^verbatim>\<open>tf.shape(rewards)[0]\<close>\<close>

fun shape0 :: "tensor \<Rightarrow> nat" where
  "shape0 (Int32 xs) = length xs"
| "shape0 (Float32 xs) = length xs"

text \<open>\<^verbatim>\<open>rewards[::-1]\<close>\<close>

fun reversed :: "tensor \<Rightarrow> tensor" where
  "reversed (Int32 xs) = Int32 (rev xs)"
| "reversed (Float32 xs) = Float32 (rev xs)"

text \<open>\<^verbatim>\<open>tf.cast(_, dtype=tf.float32)\<close>\<close>

fun cast_float32 :: "tensor \<Rightarrow> real list" where
  "cast_float32 (Int32 xs) = map real_of_int xs"
| "cast_float32 (Float32 xs) = xs"

text \<open>\<^verbatim>\<open>eps = np.finfo(np.float32).eps.item()\<close>, the machine epsilon of float32.\<close>

definition eps :: real where
  "eps = 1 / 2 ^ 23"

text \<open>
  \<^verbatim>\<open>tf.math.reduce_mean\<close>, \<^verbatim>\<open>tf.math.reduce_variance\<close> (the population variance: the
  mean of the squared deviations from the mean) and \<^verbatim>\<open>tf.math.reduce_std\<close> (its square
  root) of a rank-1 tensor. Over zero elements each of them is NaN.
\<close>

definition reduce_mean :: "real list \<Rightarrow> real option" where
  "reduce_mean xs = (if xs = [] then None else Some (sum_list xs / real (length xs)))"

definition reduce_variance :: "real list \<Rightarrow> real option" where
  "reduce_variance xs =
     (case reduce_mean xs of
        None \<Rightarrow> None
      | Some means \<Rightarrow> reduce_mean (map (\<lambda>x. (x - means)\<^sup>2) xs))"

definition reduce_std :: "real list \<Rightarrow> real option" where
  "reduce_std xs = map_option sqrt (reduce_variance xs)"

section \<open>The Return Calculator: \<^verbatim>\<open>get_expected_return\<close>\<close>

text \<open>
  The loop \<^verbatim>\<open>for i in tf.range(n)\<close> over the reversed rewards. Its state is the running
  \<^verbatim>\<open>discounted_sum\<close> and the \<^verbatim>\<open>TensorArray\<close> \<^verbatim>\<open>returns\<close> of fixed size \<open>n\<close>, written at
  index \<open>i\<close>. Every index read or written is below \<open>n\<close>.
\<close>

fun return_loop :: "real \<Rightarrow> real list \<Rightarrow> nat list \<Rightarrow> real \<times> real list \<Rightarrow> real \<times> real list" where
  "return_loop gamma rewards [] (discounted_sum, returns) = (discounted_sum, returns)"
| "return_loop gamma rewards (i # is) (discounted_sum, returns) =
     (let reward = rewards ! i;
          discounted_sum = reward + gamma * discounted_sum;
          returns = returns[i := discounted_sum]
      in return_loop gamma rewards is (discounted_sum, returns))"

text \<open>
  The standardize branch:
  \<^verbatim>\<open>(returns - tf.math.reduce_mean(returns)) / (tf.math.reduce_std(returns) + eps)\<close>.
  The divisor is \<^verbatim>\<open>std_divisor\<close>. Mean and standard deviation are NaN exactly when
  \<^verbatim>\<open>returns\<close> has no element, and then the element-wise operations yield the tensor
  with no element.
\<close>

definition std_divisor :: "real list \<Rightarrow> real option" where
  "std_divisor returns = map_option (\<lambda>s. s + eps) (reduce_std returns)"

definition standardized :: "real list \<Rightarrow> real list" where
  "standardized returns =
     (case (reduce_mean returns, std_divisor returns) of
        (Some m, Some d) \<Rightarrow> map (\<lambda>x. (x - m) / d) returns
      | _ \<Rightarrow> [])"

definition get_expected_return :: "tensor \<Rightarrow> real \<Rightarrow> bool \<Rightarrow> real list" where
  "get_expected_return rewards gamma standardize =
     (let n = shape0 rewards;
          returns = replicate n 0;
          rewards = cast_float32 (reversed rewards);
          (discounted_sum, returns) = return_loop gamma rewards [0..<n] (0, returns);
          returns = rev returns
      in if standardize then standardized returns else returns)"

section \<open>The Episode Runner: \<^verbatim>\<open>run_episode\<close>\<close>

text \<open>
  A \<^verbatim>\<open>tf.TensorArray(size=0, dynamic_size=True)\<close> and its operations. \<^verbatim>\<open>write\<close> at an
  index beyond the current size grows the array up to that index; the loops of the notebook
  write index \<open>t\<close> when the size is \<open>t\<close>, which appends. \<^verbatim>\<open>stack\<close> gives the tensor of
  the entries. A \<^verbatim>\<open>TensorArray\<close> is not a tensor.
\<close>

datatype 'a tensor_array = TensorArray "'a list"

fun ta_write :: "'a::zero tensor_array \<Rightarrow> nat \<Rightarrow> 'a \<Rightarrow> 'a tensor_array" where
  "ta_write (TensorArray xs) t x = TensorArray ((xs @ replicate (Suc t - length xs) 0)[t := x])"

fun ta_stack :: "'a tensor_array \<Rightarrow> 'a list" where
  "ta_stack (TensorArray xs) = xs"


text \<open>\<^verbatim>\<open>tf.nn.softmax\<close> of one row of logits.\<close>

definition softmax :: "real list \<Rightarrow> real list" where
  "softmax logits = map (\<lambda>x. exp x / sum_list (map exp logits)) logits"

text \<open>
  The collaborators of the episode. The batch dimension of size one that
  \<^verbatim>\<open>tf.expand_dims(state, 0)\<close> adds, and that \<^verbatim>\<open>[0, 0]\<close>, \<^verbatim>\<open>[0, action]\<close> and \<^verbatim>\<open>tf.squeeze\<close>
  remove again, is left out.
  \<^item> The model maps an observation to the action logits and the value estimate.
  \<^item> \<^verbatim>\<open>tf.random.categorical(action_logits_t, 1)[0, 0]\<close> draws an index of the logits;
    it reads and advances the state of the random generator.
  \<^item> \<^verbatim>\<open>env_step\<close> gives the next observation, the reward and the \<^verbatim>\<open>done\<close> flag, both as
    \<^verbatim>\<open>int32\<close>, and advances the simulator.
  The state of the generator and of the simulator is the world \<open>'w\<close>, passed along.
\<close>

type_synonym observation = "real list"
type_synonym network = "observation \<Rightarrow> real list \<times> real"
type_synonym 'w sampler = "'w \<Rightarrow> real list \<Rightarrow> nat \<times> 'w"
type_synonym 'w environment = "'w \<Rightarrow> nat \<Rightarrow> (observation \<times> int \<times> int) \<times> 'w"

text \<open>
  The loop \<^verbatim>\<open>for t in tf.range(max_steps)\<close> with its \<^verbatim>\<open>break\<close>. The last component of the
  loop state counts the calls of \<^verbatim>\<open>env_step\<close>; the source does not compute it, it is kept
  to state how many steps an episode took.
\<close>

fun episode_loop ::
  "network \<Rightarrow> 'w sampler \<Rightarrow> 'w environment \<Rightarrow> nat list \<Rightarrow>
   observation \<times> real tensor_array \<times> real tensor_array \<times> int tensor_array \<times> 'w \<times> nat \<Rightarrow>
   observation \<times> real tensor_array \<times> real tensor_array \<times> int tensor_array \<times> 'w \<times> nat" where
  "episode_loop model categorical env_step [] acc = acc"
| "episode_loop model categorical env_step (t # ts) (state, action_probs, values, rewards, w, steps) =
     (let (action_logits_t, value) = model state;
          (action, w) = categorical w action_logits_t;
          action_probs_t = softmax action_logits_t;
          values = ta_write values t value;
          action_probs = ta_write action_probs t (action_probs_t ! action);
          ((state, reward, done), w) = env_step w action;
          steps = Suc steps;
          rewards = ta_write rewards t reward
      in if done \<noteq> 0 then (state, action_probs, values, rewards, w, steps)
         else episode_loop model categorical env_step ts
                (state, action_probs, values, rewards, w, steps))"

text \<open>
  \<^verbatim>\<open>run_episode\<close>. The source stacks \<^verbatim>\<open>action_probs\<close> into a variable of another name,
  \<^verbatim>\<open>actions_probs\<close>, which it never reads, and returns \<^verbatim>\<open>action_probs\<close>: the first
  component of the result is the \<^verbatim>\<open>TensorArray\<close> itself, the other two are tensors.
  Beside the result of the source, the model returns the world and the step count.
\<close>

definition run_episode ::
  "observation \<Rightarrow> network \<Rightarrow> 'w sampler \<Rightarrow> 'w environment \<Rightarrow> nat \<Rightarrow> 'w \<Rightarrow>
   (real tensor_array \<times> real list \<times> int list) \<times> 'w \<times> nat" where
  "run_episode initial_state model categorical env_step max_steps w =
     (let action_probs = TensorArray [];
          values = TensorArray [];
          rewards = TensorArray [];
          state = initial_state;
          (state, action_probs, values, rewards, w, steps) =
             episode_loop model categorical env_step [0..<max_steps]
               (state, action_probs, values, rewards, w, 0);
          actions_probs = ta_stack action_probs;
          values = ta_stack values;
          rewards = ta_stack rewards
      in ((action_probs, values, rewards), w, steps))"

section \<open>The Loss Calculator: \<^verbatim>\<open>compute_loss\<close>\<close>

text \<open>
  \<^verbatim>\<open>tf.keras.losses.Huber(reduction=SUM)\<close> with its default \<open>delta = 1\<close>, called as
  \<^verbatim>\<open>huber_loss(y_true, y_pred)\<close> on rank-2 tensors of one shape: element-wise, with
  \<open>error = y_pred - y_true\<close>, the value \<open>error\<^sup>2 / 2\<close> where \<open>|error| \<le> delta\<close> and
  \<open>delta * |error| - delta\<^sup>2 / 2\<close> elsewhere; then the mean over the last axis, which gives
  one loss for each row; then, by the reduction, the sum of these.
\<close>

definition huber :: "real \<Rightarrow> real \<Rightarrow> real \<Rightarrow> real" where
  "huber delta y_true y_pred =
     (let error = y_pred - y_true;
          abs_error = \<bar>error\<bar>
      in if abs_error \<le> delta then 1 / 2 * error\<^sup>2
         else delta * abs_error - 1 / 2 * delta\<^sup>2)"

definition huber_loss :: "real list list \<Rightarrow> real list list \<Rightarrow> real option" where
  "huber_loss y_true y_pred =
     map_option sum_list
       (those (map2 (\<lambda>t p. reduce_mean (map2 (huber 1) t p)) y_true y_pred))"

text \<open>\<^verbatim>\<open>tf.math.reduce_sum\<close> of a rank-2 tensor.\<close>

definition reduce_sum :: "real list list \<Rightarrow> real" where
  "reduce_sum x = sum_list (map sum_list x)"

text \<open>
  \<^verbatim>\<open>compute_loss\<close> on three rank-2 tensors of one shape (in \<^verbatim>\<open>train_step\<close>: one column
  each). The result is NaN when the critic loss is.
\<close>

definition compute_loss :: "real list list \<Rightarrow> real list list \<Rightarrow> real list list \<Rightarrow> real option" where
  "compute_loss action_probs values returns =
     (let advantage = map2 (map2 (-)) returns values;
          action_log_probs = map (map ln) action_probs;
          actor_loss = - reduce_sum (map2 (map2 (*)) action_log_probs advantage);
          critic_loss = huber_loss values returns
      in map_option (\<lambda>critic_loss. actor_loss + critic_loss) critic_loss)"

section \<open>The training step: \<^verbatim>\<open>train_step\<close>\<close>

text \<open>
  \<^verbatim>\<open>tf.expand_dims(x, 1)\<close> turns a tensor of shape \<open>[n]\<close> into one of shape \<open>[n, 1]\<close>. Its
  argument is converted to a tensor first; a \<^verbatim>\<open>TensorArray\<close> has no such conversion and
  the call raises.
\<close>

datatype py_object = Tensor "real list" | TensorArrayObject "real tensor_array"

definition column :: "real list \<Rightarrow> real list list" where
  "column xs = map (\<lambda>x. [x]) xs"

fun expand_dims :: "py_object \<Rightarrow> error + real list list" where
  "expand_dims (Tensor xs) = Inr (column xs)"
| "expand_dims (TensorArrayObject ta) = Inl TypeError"

text \<open>
  \<^verbatim>\<open>train_step\<close>. The network is \<open>call m\<close> for the trainable variables \<open>m\<close>;
  \<^verbatim>\<open>tape.gradient\<close> followed by \<^verbatim>\<open>optimizer.apply_gradients\<close> is the function \<open>optimizer\<close>
  from the variables and the loss of the episode to the new variables. The result is
  \<^verbatim>\<open>episode_reward\<close>, with the new variables and the world.
\<close>

definition train_step ::
  "observation \<Rightarrow> ('m \<Rightarrow> network) \<Rightarrow> 'm \<Rightarrow> ('m \<Rightarrow> real option \<Rightarrow> 'm) \<Rightarrow>
   'w sampler \<Rightarrow> 'w environment \<Rightarrow> real \<Rightarrow> nat \<Rightarrow> 'w \<Rightarrow> error + (int \<times> 'm \<times> 'w)" where
  "train_step initial_state call m optimizer categorical env_step gamma max_steps_per_episode w =
     (let ((action_probs, values, rewards), w, steps) =
             run_episode initial_state (call m) categorical env_step max_steps_per_episode w;
          returns = get_expected_return (Int32 rewards) gamma True
      in case expand_dims (TensorArrayObject action_probs) of
           Inl e \<Rightarrow> Inl e
         | Inr action_probs \<Rightarrow>
             (case expand_dims (Tensor values) of
                Inl e \<Rightarrow> Inl e
              | Inr values \<Rightarrow>
                  (case expand_dims (Tensor returns) of
                     Inl e \<Rightarrow> Inl e
                   | Inr returns \<Rightarrow>
                       (let loss = compute_loss action_probs values returns;
                            m = optimizer m loss;
                            episode_reward = sum_list rewards
                        in Inr (episode_reward, m, w)))))"

section \<open>The Reward History and the training loop\<close>

text \<open>
  \<^verbatim>\<open>collections.deque(maxlen=...)\<close>: \<^verbatim>\<open>append\<close> adds on the right and then, when the
  length exceeds \<^verbatim>\<open>maxlen\<close>, removes one entry on the left.
\<close>

definition deque_append :: "nat \<Rightarrow> 'a list \<Rightarrow> 'a \<Rightarrow> 'a list" where
  "deque_append maxlen d x = (let d = d @ [x] in if maxlen < length d then tl d else d)"

text \<open>
  \<^verbatim>\<open>statistics.mean\<close> of integers; it raises \<^verbatim>\<open>StatisticsError\<close> on no data. The mean
  is the exact quotient (Python gives it as an integer when it is one, and rounds it to a
  float otherwise).
\<close>

definition statistics_mean :: "int list \<Rightarrow> error + real" where
  "statistics_mean xs =
     (if xs = [] then Inl StatisticsError
      else Inr (real_of_int (sum_list xs) / real (length xs)))"

text \<open>
  The state of the training cell: the deque \<^verbatim>\<open>episodes_reward\<close>, \<^verbatim>\<open>running_reward\<close> and
  the loop variable \<open>i\<close>, which is unbound until the first iteration and keeps its last
  value after the loop.
\<close>

type_synonym training = "int list \<times> real \<times> nat option"

text \<open>
  The loop \<^verbatim>\<open>for i in t\<close> over \<^verbatim>\<open>tqdm.trange(max_episodes)\<close>. What
  \<^verbatim>\<open>int(train_step(...))\<close> gives in iteration \<open>i\<close> is the parameter \<open>train_step_result i\<close>:
  an integer, or the exception that the call raises, which ends the loop.
\<close>

fun training_loop ::
  "nat \<Rightarrow> real \<Rightarrow> (nat \<Rightarrow> error + int) \<Rightarrow> nat list \<Rightarrow> training \<Rightarrow> error + training" where
  "training_loop min_episodes_criterion reward_threshold train_step_result [] st = Inr st"
| "training_loop min_episodes_criterion reward_threshold train_step_result (i # t)
     (episodes_reward, running_reward, last_i) =
     (case train_step_result i of
        Inl e \<Rightarrow> Inl e
      | Inr episode_reward \<Rightarrow>
          (let episodes_reward = deque_append min_episodes_criterion episodes_reward episode_reward
           in case statistics_mean episodes_reward of
                Inl e \<Rightarrow> Inl e
              | Inr running_reward \<Rightarrow>
                  if running_reward > reward_threshold \<and> i \<ge> min_episodes_criterion
                  then Inr (episodes_reward, running_reward, Some i)
                  else training_loop min_episodes_criterion reward_threshold train_step_result t
                         (episodes_reward, running_reward, Some i)))"

text \<open>The training cell, from its initial assignments to the end of the loop.\<close>

definition training ::
  "nat \<Rightarrow> nat \<Rightarrow> real \<Rightarrow> (nat \<Rightarrow> error + int) \<Rightarrow> error + training" where
  "training min_episodes_criterion max_episodes reward_threshold train_step_result =
     training_loop min_episodes_criterion reward_threshold train_step_result [0..<max_episodes]
       ([], 0, None)"

section \<open>Notions used to state the properties\<close>

text \<open>The discounted sum of the rewards from a step on, by recursion on the sequence.\<close>

fun discounted :: "real \<Rightarrow> real list \<Rightarrow> real" where
  "discounted gamma [] = 0"
| "discounted gamma (r # rs) = r + gamma * discounted gamma rs"

text \<open>The Huber loss of one element as a function of the gap \<open>|y_pred - y_true|\<close>.\<close>

definition huber_of_gap :: "real \<Rightarrow> real" where
  "huber_of_gap x = (if x \<le> 1 then x\<^sup>2 / 2 else x - 1 / 2)"

text \<open>
  The Reward History after \<open>n\<close> episodes whose rewards are \<open>r 0, r 1, ...\<close>, the
  arithmetic mean of a window, and the guard of the \<^verbatim>\<open>break\<close> as it stands after the
  episode of index \<open>j\<close>, when \<open>Suc j\<close> episodes have run.
\<close>

definition history :: "nat \<Rightarrow> (nat \<Rightarrow> int) \<Rightarrow> nat \<Rightarrow> int list" where
  "history maxlen r n = foldl (deque_append maxlen) [] (map r [0..<n])"

definition average :: "int list \<Rightarrow> real" where
  "average xs = real_of_int (sum_list xs) / real (length xs)"

definition break_guard :: "nat \<Rightarrow> real \<Rightarrow> (nat \<Rightarrow> int) \<Rightarrow> nat \<Rightarrow> bool" where
  "break_guard m thr r j = (average (history m r (Suc j)) > thr \<and> m \<le> j)"




definition solved_every_episode :: "nat \<Rightarrow> int" where
  "solved_every_episode j = 500"

definition solved_every_step :: "nat \<Rightarrow> error + int" where
  "solved_every_step j = Inr (solved_every_episode j)"

section \<open>Properties of the Return Calculator\<close>

lemma return_loop_append:
  "return_loop gamma rs (is @ js) st = return_loop gamma rs js (return_loop gamma rs is st)"
  by (induction "is" arbitrary: st) (auto simp: Let_def)

lemma return_loop_upt:
  assumes "k \<le> length rs" and "length ret = length rs"
  shows "return_loop gamma rs [0..<k] (0, ret) =
           (discounted gamma (rev (take k rs)),
            map (\<lambda>j. discounted gamma (rev (take (Suc j) rs))) [0..<k] @ drop k ret)"
  using assms
proof (induction k)
  case 0
  then show ?case by simp
next
  case (Suc k)
  then have k: "k < length rs" and kr: "k < length ret" by simp_all
  have t: "take (Suc k) rs = take k rs @ [rs ! k]"
    using k by (simp add: take_Suc_conv_app_nth)
  have u: "(map (\<lambda>j. discounted gamma (rev (take (Suc j) rs))) [0..<k] @ drop k ret)
             [k := rs ! k + gamma * discounted gamma (rev (take k rs))]
           = map (\<lambda>j. discounted gamma (rev (take (Suc j) rs))) [0..<k]
             @ [rs ! k + gamma * discounted gamma (rev (take k rs))] @ drop (Suc k) ret"
    using kr by (simp add: list_update_append Cons_nth_drop_Suc [symmetric] del: upt_Suc)
  show ?case
    using Suc.IH Suc.prems k
    by (simp add: return_loop_append Let_def t u)
qed

lemma cast_float32_reversed: "cast_float32 (reversed t) = rev (cast_float32 t)"
  by (cases t) (simp_all add: rev_map)

lemma length_cast_float32: "length (cast_float32 t) = shape0 t"
  by (cases t) simp_all

text \<open>
  Without standardization the result holds, at every step, the discounted sum of the
  rewards from that step on.
\<close>

lemma raw_returns:
  "get_expected_return rewards gamma False =
     map (\<lambda>i. discounted gamma (drop i (cast_float32 rewards))) [0..<shape0 rewards]"
proof -
  let ?xs = "cast_float32 rewards"
  let ?n = "shape0 rewards"
  have n: "length ?xs = ?n" by (rule length_cast_float32)
  have loop: "return_loop gamma (rev ?xs) [0..<?n] (0, replicate ?n 0) =
      (discounted gamma (rev (take ?n (rev ?xs))),
       map (\<lambda>j. discounted gamma (rev (take (Suc j) (rev ?xs)))) [0..<?n])"
    using return_loop_upt [of ?n "rev ?xs" "replicate ?n 0" gamma] n by simp
  have "rev (map (\<lambda>j. discounted gamma (rev (take (Suc j) (rev ?xs)))) [0..<?n])
        = map (\<lambda>i. discounted gamma (drop i ?xs)) [0..<?n]"
  proof (rule nth_equalityI)
    show "length (rev (map (\<lambda>j. discounted gamma (rev (take (Suc j) (rev ?xs)))) [0..<?n]))
          = length (map (\<lambda>i. discounted gamma (drop i ?xs)) [0..<?n])" by simp
  next
    fix i assume "i < length (rev (map (\<lambda>j. discounted gamma (rev (take (Suc j) (rev ?xs)))) [0..<?n]))"
    then have i: "i < ?n" by simp
    then have "?n - Suc i < ?n" by simp
    moreover have "length ?xs - Suc (?n - Suc i) = i" using i n by simp
    ultimately show "rev (map (\<lambda>j. discounted gamma (rev (take (Suc j) (rev ?xs)))) [0..<?n]) ! i
          = map (\<lambda>i. discounted gamma (drop i ?xs)) [0..<?n] ! i"
      using i n by (simp add: rev_nth take_rev)
  qed
  then show ?thesis
    by (simp add: get_expected_return_def Let_def cast_float32_reversed loop)
qed

lemma discounted_drop:
  "i < length xs \<Longrightarrow>
     discounted gamma (drop i xs) = xs ! i + gamma * discounted gamma (drop (Suc i) xs)"
  by (simp add: Cons_nth_drop_Suc [symmetric])

text \<open>
  Claim C1. For every reward tensor \<open>R\<close> of length \<open>n\<close> and every discount factor (in
  particular every one in \<open>[0,1)\<close>), \<^verbatim>\<open>get_expected_return\<close> with standardization disabled
  returns a sequence \<open>G\<close> of length \<open>n\<close> with \<open>G[n-1] = R[n-1]\<close> and
  \<open>G[i] = R[i] + gamma * G[i+1]\<close> for every \<open>i < n-1\<close>; for the rewards \<open>[1,1,1]\<close> and the
  discount \<open>0.5\<close> it returns \<open>[1.75, 1.5, 1.0]\<close>.
\<close>

theorem C1_discounted_return_recurrence:
  "length (get_expected_return rewards gamma False) = shape0 rewards \<and>
   (0 < shape0 rewards \<longrightarrow>
      get_expected_return rewards gamma False ! (shape0 rewards - 1)
        = cast_float32 rewards ! (shape0 rewards - 1)) \<and>
   (\<forall>i. Suc i < shape0 rewards \<longrightarrow>
      get_expected_return rewards gamma False ! i
        = cast_float32 rewards ! i + gamma * get_expected_return rewards gamma False ! Suc i) \<and>
   get_expected_return (Int32 [1, 1, 1]) 0.5 False = [1.75, 1.5, 1.0]"
proof -
  let ?xs = "cast_float32 rewards"
  let ?n = "shape0 rewards"
  have n: "length ?xs = ?n" by (rule length_cast_float32)
  have len: "length (get_expected_return rewards gamma False) = ?n"
    by (simp add: raw_returns)
  have last: "get_expected_return rewards gamma False ! (?n - 1) = ?xs ! (?n - 1)" if "0 < ?n"
  proof -
    from that have "?n - 1 < length ?xs" and "Suc (?n - 1) = length ?xs"
      using n by simp_all
    then show ?thesis
      using that by (simp add: raw_returns discounted_drop del: One_nat_def)
  qed
  have step: "get_expected_return rewards gamma False ! i
      = ?xs ! i + gamma * get_expected_return rewards gamma False ! Suc i" if "Suc i < ?n" for i
    using that n by (simp add: raw_returns discounted_drop)
  have ex: "get_expected_return (Int32 [1, 1, 1]) 0.5 False = [1.75, 1.5, 1.0]"
    by (simp add: raw_returns upt_rec)
  from len last step ex show ?thesis by blast
qed

theorem C1_discounted_return_recurrence_witness:
  "0 < shape0 (Int32 [2, 3]) \<and> Suc 0 < shape0 (Int32 [2, 3]) \<and>
   length (get_expected_return (Int32 [2, 3]) (1 / 2) False) = 2 \<and>
   get_expected_return (Int32 [2, 3]) (1 / 2) False ! 1 = 3 \<and>
   get_expected_return (Int32 [2, 3]) (1 / 2) False ! 0
     = 2 + (1 / 2) * get_expected_return (Int32 [2, 3]) (1 / 2) False ! 1"
  using C1_discounted_return_recurrence [of "Int32 [2, 3]" "1 / 2"]
  by simp

text \<open>
  Claim C9. For the reward sequence with no element, \<^verbatim>\<open>get_expected_return\<close> with
  standardization disabled returns the sequence with no element: the range of the
  accumulation loop is empty, so its body runs zero times, and the length of the output
  is the length \<open>0\<close> of the input.
\<close>

theorem C9_empty_rewards_unstandardized:
  "[0..<shape0 (Int32 [])] = [] \<and>
   get_expected_return (Int32 []) gamma False = [] \<and>
   get_expected_return (Float32 []) gamma False = [] \<and>
   length (get_expected_return (Int32 []) gamma False) = shape0 (Int32 [])"
  by (simp add: get_expected_return_def)

section \<open>Properties of the standardization\<close>



















section \<open>Properties of the Episode Runner\<close>







section \<open>Properties of the Loss Calculator\<close>

lemma expand_dims_Tensor: "expand_dims (Tensor xs) = Inr (column xs)"
  by simp

lemma huber_rows_column:
  "those (map2 (\<lambda>t p. reduce_mean (map2 (huber 1) t p)) (column V) (column G))
     = Some (map2 (huber 1) V G)"
proof (induction V arbitrary: G)
  case Nil
  then show ?case by (simp add: column_def)
next
  case (Cons v V)
  then show ?case
    by (cases G) (simp_all add: column_def reduce_mean_def)
qed

lemma sum_list_map2_nth:
  "length xs = n \<Longrightarrow> length ys = n \<Longrightarrow>
     sum_list (map2 f xs ys) = (\<Sum>i<n. f (xs ! i) (ys ! i))"
  by (simp add: sum_list_sum_nth atLeast0LessThan)

text \<open>On tensors of one column the critic loss is the sum of the element-wise losses.\<close>

lemma huber_loss_column:
  "length V = n \<Longrightarrow> length G = n \<Longrightarrow>
     huber_loss (column V) (column G) = Some (\<Sum>i<n. huber 1 (V ! i) (G ! i))"
  by (simp add: huber_loss_def huber_rows_column sum_list_map2_nth)

text \<open>On a tensor of one row it is their mean: the row is the axis that Keras averages.\<close>

lemma huber_loss_row:
  "V \<noteq> [] \<Longrightarrow> length V = length G \<Longrightarrow>
     huber_loss [V] [G] = Some (sum_list (map2 (huber 1) V G) / real (length V))"
  by (cases G) (auto simp: huber_loss_def reduce_mean_def)

lemma huber_1: "huber 1 v g = (if \<bar>g - v\<bar> \<le> 1 then (g - v)\<^sup>2 / 2 else \<bar>g - v\<bar> - 1 / 2)"
  by (simp add: huber_def Let_def)

lemma map2_column: "map2 (map2 f) (column xs) (column ys) = column (map2 f xs ys)"
proof (induction xs arbitrary: ys)
  case Nil
  then show ?case by (simp add: column_def)
next
  case (Cons x xs)
  then show ?case by (cases ys) (simp_all add: column_def)
qed

lemma actor_column:
  assumes "length P = n" and "length V = n" and "length G = n"
  shows "reduce_sum (map2 (map2 (*)) (map (map ln) (column P)) (map2 (map2 (-)) (column G) (column V)))
         = (\<Sum>i<n. ln (P ! i) * (G ! i - V ! i))"
proof -
  have "map2 (map2 (-)) (column G) (column V) = column (map2 (-) G V)"
    by (rule map2_column)
  moreover have "map (map ln) (column P) = column (map ln P)"
    unfolding column_def by simp
  moreover have "map2 (map2 (*)) (column xs) (column ys) = column (map2 (*) xs ys)"
    for xs ys :: "real list"
    by (rule map2_column)
  moreover have "reduce_sum (column xs) = sum_list xs" for xs
    unfolding column_def reduce_sum_def by (simp add: comp_def)
  ultimately have "reduce_sum (map2 (map2 (*)) (map (map ln) (column P))
        (map2 (map2 (-)) (column G) (column V)))
     = sum_list (map2 (*) (map ln P) (map2 (-) G V))" by simp
  also have "\<dots> = (\<Sum>i<n. ln (P ! i) * (G ! i - V ! i))"
    using assms by (simp add: sum_list_sum_nth atLeast0LessThan)
  finally show ?thesis .
qed

text \<open>
  Claim C3. For every three sequences \<open>P\<close> (probabilities of the chosen actions), \<open>V\<close>
  (value estimates) and \<open>G\<close> (returns) of one length \<open>n\<close>, passed as \<^verbatim>\<open>train_step\<close> passes
  them (each expanded to the shape \<open>[n, 1]\<close>), \<^verbatim>\<open>compute_loss\<close> returns the actor loss
  \<open>- \<Sum>\<^sub>i ln (P[i]) * (G[i] - V[i])\<close> plus the critic loss, the Huber loss between \<open>V\<close> and
  \<open>G\<close> summed, not averaged, over the episode. The logarithm is that of the reals, with
  which \<^verbatim>\<open>tf.math.log\<close> agrees on the positive probabilities that a softmax gives.
\<close>

theorem C3_compute_loss:
  assumes "length P = n" and "length V = n" and "length G = n"
  shows "compute_loss (column P) (column V) (column G) =
     Some (- (\<Sum>i<n. ln (P ! i) * (G ! i - V ! i))
           + (\<Sum>i<n. if \<bar>G ! i - V ! i\<bar> \<le> 1 then (G ! i - V ! i)\<^sup>2 / 2
                     else \<bar>G ! i - V ! i\<bar> - 1 / 2))"
  using assms
  by (simp add: compute_loss_def Let_def actor_column huber_loss_column huber_1)

text \<open>
  Two steps with the probabilities \<open>[1, 1]\<close>, the values \<open>[0, 0]\<close> and the returns
  \<open>[1/2, 3]\<close>: the actor loss is \<open>0\<close>, the critic loss \<open>1/8 + 5/2\<close>.
\<close>

theorem C3_compute_loss_witness:
  "length [1, 1 :: real] = 2 \<and> length [0, 0 :: real] = 2 \<and> length [1 / 2, 3 :: real] = 2 \<and>
   compute_loss (column [1, 1]) (column [0, 0]) (column [1 / 2, 3]) = Some (21 / 8)"
  using C3_compute_loss [where P = "[1, 1]" and V = "[0, 0]" and G = "[1 / 2, 3]" and n = 2]
  by (simp add: numeral_2_eq_2 lessThan_Suc power2_eq_square)

lemma huber_gap: "huber 1 v g = huber_of_gap \<bar>g - v\<bar>"
  by (simp add: huber_1 huber_of_gap_def)

lemma huber_of_gap_nonneg: "0 \<le> x \<Longrightarrow> 0 \<le> huber_of_gap x"
  by (simp add: huber_of_gap_def)

lemma huber_of_gap_zero_iff: "0 \<le> x \<Longrightarrow> huber_of_gap x = 0 \<longleftrightarrow> x = 0"
  by (auto simp: huber_of_gap_def)

lemma huber_of_gap_strict_mono:
  assumes "0 \<le> x" and "x < y"
  shows "huber_of_gap x < huber_of_gap y"
proof -
  consider "y \<le> 1" | "x \<le> 1" "1 < y" | "1 < x" by linarith
  then show ?thesis
  proof cases
    case 1
    with assms have "x\<^sup>2 < y\<^sup>2" by (intro power_strict_mono) simp_all
    with 1 assms show ?thesis by (simp add: huber_of_gap_def)
  next
    case 2
    with assms have "x\<^sup>2 \<le> 1" by (simp add: power_le_one)
    with 2 show ?thesis by (simp add: huber_of_gap_def)
  next
    case 3
    with assms show ?thesis by (simp add: huber_of_gap_def)
  qed
qed

lemma huber_of_gap_mono: "0 \<le> x \<Longrightarrow> x \<le> y \<Longrightarrow> huber_of_gap x \<le> huber_of_gap y"
  using huber_of_gap_strict_mono [of x y] by (cases "x = y") auto

text \<open>
  Claim C4. For value estimates \<open>V\<close> and returns \<open>G\<close> of one length, passed as
  \<^verbatim>\<open>train_step\<close> passes them, the critic loss of \<^verbatim>\<open>compute_loss\<close> is a number \<open>L \<ge> 0\<close>; it is
  \<open>0\<close> when (and only when) the values equal the returns; and it grows with the gaps: if
  at every step the gap \<open>|G'[i] - V'[i]|\<close> of a second pair is at least the gap
  \<open>|G[i] - V[i]|\<close>, the loss \<open>L'\<close> of the second pair is at least \<open>L\<close>, and it is larger
  when some gap is strictly wider.
\<close>

theorem C4_critic_loss:
  assumes "length V = n" and "length G = n" and "length V' = n" and "length G' = n"
  shows "\<exists>L L'. huber_loss (column V) (column G) = Some L \<and>
           huber_loss (column V') (column G') = Some L' \<and>
           0 \<le> L \<and> (L = 0 \<longleftrightarrow> V = G) \<and>
           ((\<forall>i<n. \<bar>G ! i - V ! i\<bar> \<le> \<bar>G' ! i - V' ! i\<bar>) \<longrightarrow> L \<le> L') \<and>
           ((\<forall>i<n. \<bar>G ! i - V ! i\<bar> \<le> \<bar>G' ! i - V' ! i\<bar>) \<and>
            (\<exists>i<n. \<bar>G ! i - V ! i\<bar> < \<bar>G' ! i - V' ! i\<bar>) \<longrightarrow> L < L')"
proof -
  let ?L = "\<Sum>i<n. huber_of_gap \<bar>G ! i - V ! i\<bar>"
  let ?L' = "\<Sum>i<n. huber_of_gap \<bar>G' ! i - V' ! i\<bar>"
  have L: "huber_loss (column V) (column G) = Some ?L"
    using assms by (simp add: huber_loss_column huber_gap)
  have L': "huber_loss (column V') (column G') = Some ?L'"
    using assms by (simp add: huber_loss_column huber_gap)
  have nn: "0 \<le> ?L" by (intro sum_nonneg huber_of_gap_nonneg) simp
  have z: "?L = 0 \<longleftrightarrow> V = G"
  proof -
    have "?L = 0 \<longleftrightarrow> (\<forall>i\<in>{..<n}. huber_of_gap \<bar>G ! i - V ! i\<bar> = 0)"
      by (intro sum_nonneg_eq_0_iff) (simp_all add: huber_of_gap_nonneg)
    also have "\<dots> \<longleftrightarrow> (\<forall>i<n. V ! i = G ! i)"
      by (auto simp: huber_of_gap_zero_iff)
    also have "\<dots> \<longleftrightarrow> V = G"
      using assms by (auto simp: list_eq_iff_nth_eq)
    finally show ?thesis .
  qed
  have m: "?L \<le> ?L'" if "\<forall>i<n. \<bar>G ! i - V ! i\<bar> \<le> \<bar>G' ! i - V' ! i\<bar>"
    using that by (intro sum_mono huber_of_gap_mono) simp_all
  have s: "?L < ?L'" if "\<forall>i<n. \<bar>G ! i - V ! i\<bar> \<le> \<bar>G' ! i - V' ! i\<bar>"
    and "\<exists>i<n. \<bar>G ! i - V ! i\<bar> < \<bar>G' ! i - V' ! i\<bar>"
  proof (rule sum_strict_mono_ex1)
    show "finite {..<n}" by simp
    show "\<forall>i\<in>{..<n}. huber_of_gap \<bar>G ! i - V ! i\<bar> \<le> huber_of_gap \<bar>G' ! i - V' ! i\<bar>"
      using that(1) by (simp add: huber_of_gap_mono)
    show "\<exists>i\<in>{..<n}. huber_of_gap \<bar>G ! i - V ! i\<bar> < huber_of_gap \<bar>G' ! i - V' ! i\<bar>"
    proof -
      from that(2) obtain i where "i < n" and "\<bar>G ! i - V ! i\<bar> < \<bar>G' ! i - V' ! i\<bar>"
        by blast
      then have "i \<in> {..<n}"
        and "huber_of_gap \<bar>G ! i - V ! i\<bar> < huber_of_gap \<bar>G' ! i - V' ! i\<bar>"
        by (simp_all add: huber_of_gap_strict_mono)
      then show ?thesis by blast
    qed
  qed
  from L L' nn z m s show ?thesis by blast
qed

text \<open>
  The values \<open>[0, 0]\<close> against the returns \<open>[1/2, 3]\<close> and against the returns \<open>[1, 4]\<close>,
  whose gaps are wider at both steps.
\<close>

theorem C4_critic_loss_witness:
  "length [0, 0 :: real] = 2 \<and> length [1 / 2, 3 :: real] = 2 \<and> length [1, 4 :: real] = 2 \<and>
   (\<exists>L L'. huber_loss (column [0, 0]) (column [1 / 2, 3]) = Some L \<and>
      huber_loss (column [0, 0]) (column [1, 4]) = Some L' \<and> 0 \<le> L \<and> L < L')"
proof -
  have a: "\<forall>i<2. \<bar>[1 / 2, 3 :: real] ! i - [0, 0] ! i\<bar> \<le> \<bar>[1, 4] ! i - [0, 0] ! i\<bar>"
    by (simp add: numeral_2_eq_2 less_Suc_eq)
  have b: "\<exists>i<2. \<bar>[1 / 2, 3 :: real] ! i - [0, 0] ! i\<bar> < \<bar>[1, 4] ! i - [0, 0] ! i\<bar>"
    by (rule exI [of _ 0]) simp
  from C4_critic_loss [where V = "[0, 0]" and G = "[1 / 2, 3]" and V' = "[0, 0]"
      and G' = "[1, 4]" and n = 2] a b
  show ?thesis by auto
qed


section \<open>Properties of the Reward History and of the training loop\<close>

lemma deque_append_length: "length d \<le> maxlen \<Longrightarrow> length (deque_append maxlen d x) \<le> maxlen"
  by (simp add: deque_append_def Let_def)

lemma deque_append_full: "length d = maxlen \<Longrightarrow> deque_append maxlen d x = tl (d @ [x])"
  by (simp add: deque_append_def Let_def)

lemma deque_append_room: "length d < maxlen \<Longrightarrow> deque_append maxlen d x = d @ [x]"
  by (simp add: deque_append_def Let_def)

lemma deque_append_nonempty: "0 < maxlen \<Longrightarrow> deque_append maxlen d x \<noteq> []"
  by (cases d) (auto simp: deque_append_def Let_def)

lemma foldl_deque_append_length:
  "length d \<le> maxlen \<Longrightarrow> length (foldl (deque_append maxlen) d xs) \<le> maxlen"
  by (induction xs arbitrary: d) (simp_all add: deque_append_length)

lemma history_Suc: "history maxlen r (Suc n) = deque_append maxlen (history maxlen r n) (r n)"
  by (simp add: history_def)

lemma statistics_mean_average: "xs \<noteq> [] \<Longrightarrow> statistics_mean xs = Inr (average xs)"
  by (simp add: statistics_mean_def average_def)

text \<open>The deque of the loop never grows beyond its \<^verbatim>\<open>maxlen\<close>, whatever the episodes give.\<close>

lemma training_loop_invariant:
  "training_loop m thr res is (er, rr, li) = Inr (er', rr', li') \<Longrightarrow> length er \<le> m \<Longrightarrow>
     length er' \<le> m"
proof (induction "is" arbitrary: er rr li)
  case Nil
  then show ?case by simp
next
  case (Cons j js)
  then show ?case
    by (auto simp: Let_def deque_append_length split: sum.splits if_splits)
qed

text \<open>
  The loop from iteration \<open>i\<close> on, when no call of \<^verbatim>\<open>train_step\<close> raises: it ends after the
  first episode \<open>k \<ge> i\<close> at which the guard of the \<^verbatim>\<open>break\<close> holds or the range is
  exhausted, with the Reward History of the first \<open>Suc k\<close> episodes and its mean.
\<close>

lemma training_loop_from:
  assumes m: "0 < m" and i: "i < n"
  shows "\<exists>k. i \<le> k \<and> k < n \<and>
           training_loop m thr (\<lambda>j. Inr (r j)) [i..<n] (history m r i, rr, li)
             = Inr (history m r (Suc k), average (history m r (Suc k)), Some k) \<and>
           (break_guard m thr r k \<or> Suc k = n) \<and>
           (\<forall>j. i \<le> j \<and> j < k \<longrightarrow> \<not> break_guard m thr r j)"
  using i
proof (induction "n - i" arbitrary: i rr li)
  case 0
  then show ?case by simp
next
  case (Suc d)
  let ?h = "history m r (Suc i)"
  have ne: "?h \<noteq> []" using m by (simp add: history_Suc deque_append_nonempty)
  have unf: "training_loop m thr (\<lambda>j. Inr (r j)) [i..<n] (history m r i, rr, li) =
      (if break_guard m thr r i then Inr (?h, average ?h, Some i)
       else training_loop m thr (\<lambda>j. Inr (r j)) [Suc i..<n] (?h, average ?h, Some i))"
    using Suc.prems ne
    by (simp add: upt_conv_Cons Let_def history_Suc [symmetric] statistics_mean_average
        break_guard_def)
  show ?case
  proof (cases "break_guard m thr r i \<or> Suc i = n")
    case True
    then have "training_loop m thr (\<lambda>j. Inr (r j)) [i..<n] (history m r i, rr, li)
        = Inr (?h, average ?h, Some i)"
      using unf by auto
    with True Suc.prems show ?thesis by (intro exI [of _ i]) auto
  next
    case False
    then have lt: "Suc i < n" and d: "d = n - Suc i" using Suc.prems Suc.hyps(2) by simp_all
    from Suc.hyps(1) [OF d lt, of "average ?h" "Some i"] obtain k where
      k: "Suc i \<le> k" "k < n"
        "training_loop m thr (\<lambda>j. Inr (r j)) [Suc i..<n] (?h, average ?h, Some i)
           = Inr (history m r (Suc k), average (history m r (Suc k)), Some k)"
        "break_guard m thr r k \<or> Suc k = n"
        "\<forall>j. Suc i \<le> j \<and> j < k \<longrightarrow> \<not> break_guard m thr r j"
      by blast
    have "\<forall>j. i \<le> j \<and> j < k \<longrightarrow> \<not> break_guard m thr r j"
    proof (intro allI impI)
      fix j assume "i \<le> j \<and> j < k"
      then consider "j = i" | "Suc i \<le> j \<and> j < k" by linarith
      then show "\<not> break_guard m thr r j"
        using False k(5) by cases auto
    qed
    with k False unf show ?thesis
      by (intro exI [of _ k]) auto
  qed
qed

lemma training_char:
  assumes "0 < m" and "0 < n"
  shows "\<exists>k<n. training m n thr (\<lambda>j. Inr (r j))
             = Inr (history m r (Suc k), average (history m r (Suc k)), Some k) \<and>
           (break_guard m thr r k \<or> Suc k = n) \<and>
           (\<forall>j<k. \<not> break_guard m thr r j)"
proof -
  have "history m r 0 = []" by (simp add: history_def)
  with training_loop_from [OF assms, of thr r 0 None] show ?thesis
    unfolding training_def by auto
qed

lemma foldl_deque_append_replicate:
  "a \<le> m \<Longrightarrow>
     foldl (deque_append m) (replicate a c) (replicate b c) = replicate (min m (a + b)) c"
proof (induction b arbitrary: a)
  case 0
  then show ?case by simp
next
  case (Suc b)
  show ?case
  proof (cases "a < m")
    case True
    then have "deque_append m (replicate a c) c = replicate (Suc a) c"
      by (simp add: deque_append_room replicate_append_same)
    with Suc.IH [of "Suc a"] True show ?thesis by simp
  next
    case False
    with Suc.prems have am: "a = m" by simp
    then have "deque_append m (replicate a c) c = replicate a c"
      by (simp add: deque_append_full replicate_append_same)
    with Suc.IH [of a] am show ?thesis by simp
  qed
qed

lemma history_const: "history m (\<lambda>j. c) n = replicate (min m n) c"
  using foldl_deque_append_replicate [of 0 m c n]
  by (simp add: history_def map_replicate_const)

lemma average_replicate: "0 < n \<Longrightarrow> average (replicate n c) = real_of_int c"
  by (simp add: average_def sum_list_replicate)

lemma training_solved_small:
  "training 2 3 475 solved_every_step = Inr ([500, 500], 500, Some 2)"
  by (simp add: training_def upt_rec solved_every_step_def solved_every_episode_def
      deque_append_def statistics_mean_def)

text \<open>
  Claim C5. The Reward History never holds more than its capacity: \<^verbatim>\<open>append\<close> keeps a
  deque within \<^verbatim>\<open>maxlen\<close>, so does any sequence of appends to the empty deque, and so
  does the training loop. Once the deque is full, \<^verbatim>\<open>append\<close> evicts exactly the oldest
  entry: the new contents are the old ones without their first entry, followed by the new
  reward. With capacity \<open>3\<close>, appending \<open>10, 20, 30, 40\<close> leaves \<open>[20, 30, 40]\<close>, of
  running average \<open>30\<close>.
\<close>

theorem C5_reward_history:
  "(length (d :: int list) \<le> maxlen \<longrightarrow> length (deque_append maxlen d x) \<le> maxlen) \<and>
   length (foldl (deque_append maxlen) [] (xs :: int list)) \<le> maxlen \<and>
   (training maxlen max_episodes reward_threshold results = Inr (episodes_reward, running, last_i)
      \<longrightarrow> length episodes_reward \<le> maxlen) \<and>
   (length d = maxlen \<longrightarrow> deque_append maxlen d x = tl (d @ [x])) \<and>
   (length d = maxlen \<and> d \<noteq> [] \<longrightarrow> deque_append maxlen d x = tl d @ [x]) \<and>
   foldl (deque_append 3) [] [10, 20, 30, 40 :: int] = [20, 30, 40] \<and>
   statistics_mean (foldl (deque_append 3) [] [10, 20, 30, 40]) = Inr 30"
proof -
  have a: "length d \<le> maxlen \<longrightarrow> length (deque_append maxlen d x) \<le> maxlen"
    by (simp add: deque_append_length)
  have b: "length (foldl (deque_append maxlen) [] xs) \<le> maxlen"
    by (simp add: foldl_deque_append_length)
  have c: "training maxlen max_episodes reward_threshold results
        = Inr (episodes_reward, running, last_i)
      \<longrightarrow> length episodes_reward \<le> maxlen"
    unfolding training_def using training_loop_invariant [of maxlen _ _ _ "[]"] by auto
  have d: "length d = maxlen \<longrightarrow> deque_append maxlen d x = tl (d @ [x])"
    by (simp add: deque_append_full)
  have e: "length d = maxlen \<and> d \<noteq> [] \<longrightarrow> deque_append maxlen d x = tl d @ [x]"
    by (simp add: deque_append_full)
  have f: "foldl (deque_append 3) [] [10, 20, 30, 40 :: int] = [20, 30, 40]"
    by (simp add: deque_append_def)
  have g: "statistics_mean (foldl (deque_append 3) [] [10, 20, 30, 40]) = Inr 30"
    by (simp add: deque_append_def statistics_mean_def)
  from a b c d e f g show ?thesis by blast
qed

text \<open>
  The full deque \<open>[10, 20, 30]\<close> of capacity \<open>3\<close>, and a training of three episodes with a
  Reward History of capacity \<open>2\<close>.
\<close>

theorem C5_reward_history_witness:
  "length [10, 20, 30 :: int] \<le> 3 \<and> length [10, 20, 30 :: int] = 3 \<and> [10, 20, 30 :: int] \<noteq> [] \<and>
   length (deque_append 3 [10, 20, 30 :: int] 40) \<le> 3 \<and>
   deque_append 3 [10, 20, 30 :: int] 40 = tl [10, 20, 30] @ [40] \<and>
   training 2 3 475 solved_every_step = Inr ([500, 500], 500, Some 2) \<and>
   length [500, 500 :: int] \<le> 2"
proof -
  from C5_reward_history [where d = "[10, 20, 30]" and maxlen = 3 and x = 40]
    C5_reward_history [where maxlen = 2 and max_episodes = 3 and reward_threshold = 475
      and results = solved_every_step and episodes_reward = "[500, 500]" and running = 500
      and last_i = "Some 2"] training_solved_small
  show ?thesis by simp
qed

text \<open>
  Claim C6, as amended. With a Reward History of positive capacity
  \<^verbatim>\<open>min_episodes_criterion\<close>, a positive \<^verbatim>\<open>max_episodes\<close> and no call of \<^verbatim>\<open>train_step\<close>
  raising, the training loop ends after some episode \<open>k\<close>, with the Reward History of the
  first \<open>Suc k\<close> episodes and its mean as running average, and after an episode of index
  \<open>j\<close>, when \<open>Suc j\<close> episodes have run, it stops if and only if either (a) the running average
  exceeds the threshold and more than \<^verbatim>\<open>min_episodes_criterion\<close> episodes have run (the
  guard of the source is \<open>i \<ge> min_episodes_criterion\<close> on the index, which counts from
  \<open>0\<close>), or (b) \<^verbatim>\<open>max_episodes\<close> episodes have run; otherwise it goes on to the next
  episode.
\<close>

theorem C6_training_stops:
  assumes "0 < min_episodes_criterion" and "0 < max_episodes"
  shows "\<exists>k<max_episodes.
           training min_episodes_criterion max_episodes reward_threshold (\<lambda>j. Inr (r j))
             = Inr (history min_episodes_criterion r (Suc k),
                    average (history min_episodes_criterion r (Suc k)), Some k) \<and>
           (\<forall>j\<le>k. j = k \<longleftrightarrow>
              (average (history min_episodes_criterion r (Suc j)) > reward_threshold \<and>
               min_episodes_criterion < Suc j) \<or> Suc j = max_episodes)"
proof -
  from training_char [OF assms, of reward_threshold r] obtain k where
    k: "k < max_episodes"
      "training min_episodes_criterion max_episodes reward_threshold (\<lambda>j. Inr (r j))
         = Inr (history min_episodes_criterion r (Suc k),
                average (history min_episodes_criterion r (Suc k)), Some k)"
      "break_guard min_episodes_criterion reward_threshold r k \<or> Suc k = max_episodes"
      "\<forall>j<k. \<not> break_guard min_episodes_criterion reward_threshold r j"
    by blast
  have "j = k \<longleftrightarrow>
      (average (history min_episodes_criterion r (Suc j)) > reward_threshold \<and>
       min_episodes_criterion < Suc j) \<or> Suc j = max_episodes" if "j \<le> k" for j
  proof (cases "j = k")
    case True
    with k(3) show ?thesis by (auto simp: break_guard_def)
  next
    case False
    with that have "j < k" by simp
    with k(1,4) have "\<not> break_guard min_episodes_criterion reward_threshold r j"
      and "Suc j \<noteq> max_episodes" by auto
    with False show ?thesis by (auto simp: break_guard_def)
  qed
  with k(1,2) show ?thesis by blast
qed

text \<open>
  Capacity \<open>2\<close> and at most \<open>3\<close> episodes of reward \<open>500\<close>: the loop runs the episodes \<open>0\<close>,
  \<open>1\<close> and \<open>2\<close> and stops after the third.
\<close>

theorem C6_training_stops_witness:
  "(0::nat) < 2 \<and> (0::nat) < 3 \<and>
   (\<exists>k<3. training 2 3 475 (\<lambda>j. Inr (solved_every_episode j))
       = Inr (history 2 solved_every_episode (Suc k),
              average (history 2 solved_every_episode (Suc k)), Some k)) \<and>
   training 2 3 475 solved_every_step = Inr ([500, 500], 500, Some 2)"
  using C6_training_stops [of 2 3 475 solved_every_episode] training_solved_small
  by auto

text \<open>
  Claim C6 as stated fails, with the constants of the notebook (capacity and minimum
  \<open>100\<close>, at most \<open>10000\<close> episodes, threshold \<open>475\<close>) and every episode earning \<open>500\<close>.
  After the episode of index \<open>99\<close> the running average \<open>500\<close> exceeds the threshold and
  \<open>100\<close> episodes, the minimum number, have elapsed, so condition (a) of the claim holds;
  yet the loop does not stop there: it runs the episode of index \<open>100\<close> and stops after
  it, long before the maximum episode count.
\<close>

theorem C6_training_stops_counterexample:
  "training 100 10000 475 solved_every_step = Inr (replicate 100 500, 500, Some 100) \<and>
   average (history 100 solved_every_episode (Suc 99)) > 475 \<and>
   (100::nat) \<le> Suc 99 \<and> Suc 99 \<noteq> (10000::nat)"
proof -
  have se: "solved_every_episode = (\<lambda>j. 500)"
    by (rule ext) (simp add: solved_every_episode_def)
  have ss: "solved_every_step = (\<lambda>j. Inr (solved_every_episode j))"
    by (rule ext) (simp add: solved_every_step_def)
  have av: "average (history 100 solved_every_episode (Suc j)) = 500" for j
  proof -
    have "0 < min (100::nat) (Suc j)" by simp
    from average_replicate [OF this, of 500] show ?thesis
      unfolding se history_const by simp
  qed
  have g: "break_guard 100 475 solved_every_episode j \<longleftrightarrow> 100 \<le> j" for j
    by (simp add: break_guard_def av)
  from training_char [of 100 10000 475 solved_every_episode] obtain k where
    k: "k < 10000"
      "training 100 10000 475 (\<lambda>j. Inr (solved_every_episode j))
         = Inr (history 100 solved_every_episode (Suc k),
                average (history 100 solved_every_episode (Suc k)), Some k)"
      "break_guard 100 475 solved_every_episode k \<or> Suc k = 10000"
      "\<forall>j<k. \<not> break_guard 100 475 solved_every_episode j"
    by auto
  from k(3) have "100 \<le> k" by (auto simp: g)
  moreover from k(4) have "\<not> 100 < k" by (auto simp: g)
  ultimately have k100: "k = 100" by simp
  have "history 100 solved_every_episode (Suc 100) = replicate 100 500"
    unfolding se history_const by simp
  with k(2) k100 av [of 100] have "training 100 10000 475 solved_every_step
      = Inr (replicate 100 500, 500, Some 100)"
    by (simp add: ss)
  with av [of 99] show ?thesis by simp
qed

section \<open>The training step\<close>

text \<open>An exception of \<^verbatim>\<open>train_step\<close> in the first episode ends the training cell.\<close>

lemma training_raises: "0 < n \<Longrightarrow> training m n thr (\<lambda>j. Inl e) = Inl e"
  by (simp add: training_def upt_conv_Cons)

text \<open>
  Claim C10. The claim says that \<^verbatim>\<open>train_step\<close> returns the sum of the rewards that
  \<^verbatim>\<open>run_episode\<close> collected. The source computes that sum in its last statement, but does
  not reach it: \<^verbatim>\<open>run_episode\<close> returns its \<^verbatim>\<open>TensorArray\<close> of action probabilities
  unstacked, \<^verbatim>\<open>tf.expand_dims\<close> does not accept it, and for every initial observation,
  model, simulator, discount and step count \<^verbatim>\<open>train_step\<close> raises instead of returning.
\<close>

theorem C10_train_step_raises:
  "train_step initial_state call m optimizer categorical env_step gamma max_steps_per_episode w
     = Inl TypeError"
  by (simp add: train_step_def split: prod.splits)


end
